theory Spec2Isabelle
  imports Complex_Main "HOL-Library.Char_ord" "HOL-Library.List_Lexorder"
begin

section \<open>Values decoded from the gateway\<close>

text \<open>
  \<^verbatim>\<open>discordBot.py\<close> works on the values that \<^verbatim>\<open>msg.json()\<close> decodes: \<^verbatim>\<open>None\<close>,
  booleans, integers, strings, lists and dictionaries with string keys. A dictionary is an
  association list read from the front, so the first binding of a key is the one Python
  would hold. Floating-point numbers are not modelled.
\<close>

datatype json =
    JNull
  | JBool bool
  | JInt int
  | JStr string
  | JArr "json list"
  | JObj "(string \<times> json) list"

text \<open>The exceptions the program can raise, with what Python reports.\<close>

datatype error =
    KeyError json
  | TypeError string
  | NameError string
  | IndexError string
  | OverflowError string

text \<open>
  Python's \<^verbatim>\<open>==\<close> on decoded values: \<^verbatim>\<open>True == 1\<close> and \<^verbatim>\<open>False == 0\<close>, lists compare
  element by element, dictionaries compare as mappings (neither order nor shadowed
  bindings count). \<open>canon\<close> computes a normal form in which two values are equal exactly
  when Python's \<^verbatim>\<open>==\<close> holds.
\<close>

fun dedupe :: "(string \<times> 'a) list \<Rightarrow> (string \<times> 'a) list" where
  "dedupe [] = []"
| "dedupe (kv # kvs) = kv # filter (\<lambda>p. fst p \<noteq> fst kv) (dedupe kvs)"

primrec canon :: "json \<Rightarrow> json" where
  "canon JNull = JNull"
| "canon (JBool b) = JInt (if b then 1 else 0)"
| "canon (JInt n) = JInt n"
| "canon (JStr s) = JStr s"
| "canon (JArr xs) = JArr (map canon xs)"
| "canon (JObj kvs) = JObj (sort_key fst (dedupe (map (map_prod id canon) kvs)))"

definition py_eq :: "json \<Rightarrow> json \<Rightarrow> bool" where
  "py_eq a b = (canon a = canon b)"

text \<open>Truth value of a decoded value, as \<^verbatim>\<open>if x:\<close> and \<^verbatim>\<open>not x\<close> read it.\<close>

fun truthy :: "json \<Rightarrow> bool" where
  "truthy JNull = False"
| "truthy (JBool b) = b"
| "truthy (JInt n) = (n \<noteq> 0)"
| "truthy (JStr s) = (s \<noteq> [])"
| "truthy (JArr xs) = (xs \<noteq> [])"
| "truthy (JObj kvs) = (kvs \<noteq> [])"

text \<open>\<^verbatim>\<open>x[k]\<close> for a string key \<open>k\<close>: only a dictionary holding the key answers.\<close>

fun subscript :: "json \<Rightarrow> string \<Rightarrow> error + json" where
  "subscript (JObj kvs) k =
     (case map_of kvs k of None \<Rightarrow> Inl (KeyError (JStr k)) | Some v \<Rightarrow> Inr v)"
| "subscript JNull k = Inl (TypeError ''NoneType object is not subscriptable'')"
| "subscript (JBool b) k = Inl (TypeError ''bool object is not subscriptable'')"
| "subscript (JInt n) k = Inl (TypeError ''int object is not subscriptable'')"
| "subscript (JStr s) k = Inl (TypeError ''string indices must be integers'')"
| "subscript (JArr xs) k = Inl (TypeError ''list indices must be integers or slices, not str'')"

text \<open>
  Keys of the program's own dictionaries (\<^verbatim>\<open>guilds\<close>, the registries, \<^verbatim>\<open>channelBuffer\<close>)
  are decoded values. A list or a dictionary is unhashable and raises; any other value is
  stored under its normal form, so that \<^verbatim>\<open>True\<close> and \<^verbatim>\<open>1\<close> name the same entry.
\<close>

fun hashable :: "json \<Rightarrow> bool" where
  "hashable (JArr xs) = False"
| "hashable (JObj kvs) = False"
| "hashable j = True"

definition hash_key :: "json \<Rightarrow> error + json" where
  "hash_key j = (if hashable j then Inr (canon j) else Inl (TypeError ''unhashable type''))"

text \<open>\<^verbatim>\<open>for g in x\<close>: a list yields its elements, a dictionary its keys, a string its
  characters; nothing else can be iterated.\<close>

fun py_iter :: "json \<Rightarrow> error + json list" where
  "py_iter (JArr xs) = Inr xs"
| "py_iter (JObj kvs) = Inr (map (\<lambda>p. JStr (fst p)) (dedupe kvs))"
| "py_iter (JStr s) = Inr (map (\<lambda>c. JStr [c]) s)"
| "py_iter j = Inl (TypeError ''object is not iterable'')"

text \<open>
  \<^verbatim>\<open>interval / 1000\<close>: defined on numbers only. Dividing two integers gives the float
  nearest to the quotient, and raises \<^verbatim>\<open>OverflowError\<close> when that is beyond the largest
  finite double, \<open>2^1024 - 2^971\<close>: that is when the quotient, rounded to nearest, reaches
  \<open>2^1024 - 2^970\<close> in absolute value. The model keeps the exact quotient, of which the
  float is the nearest double.
\<close>

definition fits_float :: "rat \<Rightarrow> bool" where
  "fits_float q = (\<bar>q\<bar> < 2 ^ 1024 - 2 ^ 970)"

fun div_1000 :: "json \<Rightarrow> error + rat" where
  "div_1000 (JInt n) =
     (if fits_float (of_int n / 1000) then Inr (of_int n / 1000)
      else Inl (OverflowError ''integer division result too large for a float''))"
| "div_1000 (JBool b) = Inr ((if b then 1 else 0) / 1000)"
| "div_1000 j = Inl (TypeError ''unsupported operand type(s) for /'')"

section \<open>Callables, effects and the program state\<close>

text \<open>
  Matchers and handlers are functions of the bot's author. A function is known by its
  identity (a number) and by what running it does: \<open>c_async\<close> says whether it is an
  \<^verbatim>\<open>async def\<close>; \<open>c_call f x\<close> is the value the body of \<open>f\<close> runs to on \<open>x\<close>, or the exception
  it raises (for a plain \<^verbatim>\<open>def\<close> that is \<^verbatim>\<open>f(x)\<close>, for an \<^verbatim>\<open>async def\<close> it is
  \<^verbatim>\<open>await f(x)\<close>); \<open>c_name\<close> is \<^verbatim>\<open>f.__name__\<close>. What such a function does to the session
  is outside the program and is not modelled: a call is recorded and its outcome taken.
\<close>

record callable =
  c_name :: string
  c_async :: bool
  c_call :: "json \<Rightarrow> error + json"

text \<open>What \<^verbatim>\<open>dispatch_registry\<close> can hold: a user function as it was given, or the bound
  method \<^verbatim>\<open>handle_message_create\<close> of a chat handler (stored by its constructor).\<close>

datatype handler = Fn nat | Message_create nat

text \<open>The lines the program prints.\<close>

datatype line =
    Warn_dispatch_registered json string
  | Warn_opcode_registered json string
  | Fatal_no_ack
  | Warn_repeat_ready
  | My_username json
  | In_guilds nat
  | Hello_received json

text \<open>
  The effects in the order they happen: a printed line, a payload handed to
  \<^verbatim>\<open>ws.send_json\<close>, a heartbeat task handed to \<^verbatim>\<open>asyncio.ensure_future\<close> (connection and
  interval), a completed \<^verbatim>\<open>asyncio.sleep\<close> (seconds), a matcher called, a handler run.
\<close>

datatype event =
    Printed line
  | Sent json
  | Scheduled_heartbeat nat json
  | Slept rat
  | Called_matcher nat json
  | Called_handler nat json

text \<open>An entry of \<^verbatim>\<open>match_registry[0]\<close>: the dictionary
  \<^verbatim>\<open>{"matcher": matcher, "no_self_respond": no_self_respond}\<close>.\<close>

record matcher_entry =
  matcher :: nat
  no_self_respond :: bool

text \<open>Attributes that are assigned through \<^verbatim>\<open>self\<close>, hence held by each instance.
  \<^verbatim>\<open>user\<close>, \<^verbatim>\<open>session_id\<close>, \<^verbatim>\<open>ack\<close> and \<^verbatim>\<open>sequence\<close> start from the class's values
  (\<^verbatim>\<open>None\<close>, \<^verbatim>\<open>None\<close>, \<^verbatim>\<open>True\<close>, \<^verbatim>\<open>None\<close>).\<close>

record connection =
  botToken :: string
  user :: json
  session_id :: json
  ack :: bool
  sequence :: json

record chat_handler =
  bot_connection :: nat
  bufferSize :: int

text \<open>
  The whole program state. \<^verbatim>\<open>guilds\<close>, \<^verbatim>\<open>dispatch_registry\<close> and \<^verbatim>\<open>message_registry\<close> are
  attributes of the class \<^verbatim>\<open>discord_bot_connection\<close>, \<^verbatim>\<open>channelBuffer\<close> and
  \<^verbatim>\<open>match_registry\<close> of the class \<^verbatim>\<open>discord_chat_handler\<close>: they are created once, when the
  class body runs, and no method ever assigns them through \<^verbatim>\<open>self\<close> (the methods only
  store into them), so every instance reads and writes the same object. Instances are
  addressed by number.
\<close>

record world =
  guilds :: "json \<rightharpoonup> json"
  dispatch_registry :: "json \<rightharpoonup> handler"
  message_registry :: "json \<rightharpoonup> nat"
  channelBuffer :: "json \<rightharpoonup> json list"
  match_registry :: "matcher_entry list \<times> nat list"
  connections :: "nat \<Rightarrow> connection"
  chat_handlers :: "nat \<Rightarrow> chat_handler"
  callables :: "nat \<Rightarrow> callable"
  effects :: "event list"

definition emit :: "event \<Rightarrow> world \<Rightarrow> world" where
  "emit e w = w\<lparr>effects := effects w @ [e]\<rparr>"

text \<open>
  The state once the module is loaded and before any method has run: the class attributes
  as the class bodies create them, and nothing printed or sent. Connection \<open>i\<close> is as
  \<^verbatim>\<open>discord_bot_connection('token')\<close> leaves it. The attributes of a chat handler are set
  by its constructor (\<open>chat_handler_init\<close>); until then the table holds what the constructor
  would set for connection \<open>i\<close> without a \<^verbatim>\<open>bufferSize\<close>.
\<close>

definition new_connection :: "string \<Rightarrow> connection" where
  "new_connection token =
     \<lparr>botToken = token, user = JNull, session_id = JNull, ack = True, sequence = JNull\<rparr>"

definition module_loaded :: "(nat \<Rightarrow> callable) \<Rightarrow> world" where
  "module_loaded fs =
     \<lparr>guilds = Map.empty, dispatch_registry = Map.empty, message_registry = Map.empty,
      channelBuffer = Map.empty, match_registry = ([], []),
      connections = (\<lambda>i. new_connection ''token''),
      chat_handlers = (\<lambda>i. \<lparr>bot_connection = i, bufferSize = 3\<rparr>),
      callables = fs, effects = []\<rparr>"

section \<open>Registration\<close>

text \<open>\<^verbatim>\<open>func.__name__\<close> of what \<^verbatim>\<open>register_dispatch\<close> is given.\<close>

fun handler_name :: "world \<Rightarrow> handler \<Rightarrow> string" where
  "handler_name w (Fn f) = c_name (callables w f)"
| "handler_name w (Message_create c) = ''handle_message_create''"

text \<open>
  \<^verbatim>\<open>register_dispatch(self, event, func)\<close>: the membership test hashes \<open>event\<close>; a bound
  key prints the warning; the store replaces the binding. The dictionary is the class's.
\<close>

definition register_dispatch :: "nat \<Rightarrow> json \<Rightarrow> handler \<Rightarrow> world \<Rightarrow> error option \<times> world" where
  "register_dispatch self event func w =
     (case hash_key event of
        Inl e \<Rightarrow> (Some e, w)
      | Inr k \<Rightarrow>
          let w1 = (if dispatch_registry w k \<noteq> None
                    then emit (Printed (Warn_dispatch_registered event (handler_name w func))) w
                    else w)
          in (None, w1\<lparr>dispatch_registry := (dispatch_registry w1)(k \<mapsto> func)\<rparr>))"

text \<open>
  \<^verbatim>\<open>register_message(self, opcode, func)\<close>: as above on \<^verbatim>\<open>message_registry\<close>; what is
  stored is \<^verbatim>\<open>asyncio.coroutine(func)\<close>, which can be awaited whether or not \<open>func\<close> is an
  \<^verbatim>\<open>async def\<close>. \<open>func\<close> is a user function.
\<close>

definition register_message :: "nat \<Rightarrow> json \<Rightarrow> nat \<Rightarrow> world \<Rightarrow> error option \<times> world" where
  "register_message self opcode func w =
     (case hash_key opcode of
        Inl e \<Rightarrow> (Some e, w)
      | Inr k \<Rightarrow>
          let w1 = (if message_registry w k \<noteq> None
                    then emit (Printed (Warn_opcode_registered opcode (c_name (callables w func)))) w
                    else w)
          in (None, w1\<lparr>message_registry := (message_registry w1)(k \<mapsto> func)\<rparr>))"

text \<open>
  \<^verbatim>\<open>register_match(self, matcher, func, no_self_respond)\<close>: when an equal entry is already
  in \<^verbatim>\<open>match_registry[0]\<close> the warning's f-string reads \<^verbatim>\<open>expression\<close>, a name bound
  nowhere, and the call raises before anything is appended. Otherwise the entry and
  \<^verbatim>\<open>asyncio.coroutine(func)\<close> are appended to the two lists. Two entries are equal when
  they hold the same function and the same flag.
\<close>

definition register_match :: "nat \<Rightarrow> nat \<Rightarrow> nat \<Rightarrow> bool \<Rightarrow> world \<Rightarrow> error option \<times> world" where
  "register_match self m func nsr w =
     (let entry = \<lparr>matcher = m, no_self_respond = nsr\<rparr> in
      if entry \<in> set (fst (match_registry w)) then (Some (NameError ''expression''), w)
      else (None, w\<lparr>match_registry :=
                       (fst (match_registry w) @ [entry], snd (match_registry w) @ [func])\<rparr>))"

text \<open>
  \<^verbatim>\<open>discord_chat_handler.__init__(self, bot_connection, **kwargs)\<close>: binds its own
  \<^verbatim>\<open>handle_message_create\<close> to \<^verbatim>\<open>MESSAGE_CREATE\<close>, then sets its two attributes
  (\<open>bufferSize\<close> is 3 unless given).
\<close>

definition chat_handler_init :: "nat \<Rightarrow> nat \<Rightarrow> int option \<Rightarrow> world \<Rightarrow> error option \<times> world" where
  "chat_handler_init self conn size_kw w =
     (case register_dispatch conn (JStr ''MESSAGE_CREATE'') (Message_create self) w of
        (Some e, w1) \<Rightarrow> (Some e, w1)
      | (None, w1) \<Rightarrow>
          (None, w1\<lparr>chat_handlers := (chat_handlers w1)
             (self := \<lparr>bot_connection = conn,
                       bufferSize = (case size_kw of Some n \<Rightarrow> n | None \<Rightarrow> 3)\<rparr>)\<rparr>))"

section \<open>The chat handler\<close>

text \<open>
  The first block of \<^verbatim>\<open>handle_message_create\<close>: with \<^verbatim>\<open>bufferSize > 0\<close> the channel's
  buffer is created on first use (\<open>bufferSize\<close> times \<^verbatim>\<open>None\<close>), its first element popped
  and the message appended.
\<close>

definition buffer_message :: "nat \<Rightarrow> json \<Rightarrow> world \<Rightarrow> error option \<times> world" where
  "buffer_message self message w =
     (if bufferSize (chat_handlers w self) > 0 then
        (case subscript message ''channel_id'' of
           Inl e \<Rightarrow> (Some e, w)
         | Inr c \<Rightarrow>
            (case hash_key c of
               Inl e \<Rightarrow> (Some e, w)
             | Inr k \<Rightarrow>
                 let buf = (case channelBuffer w k of
                              None \<Rightarrow> replicate (nat (bufferSize (chat_handlers w self))) JNull
                            | Some b \<Rightarrow> b)
                 in (case buf of
                       [] \<Rightarrow> (Some (IndexError ''pop from empty list''),
                              w\<lparr>channelBuffer := (channelBuffer w)(k \<mapsto> buf)\<rparr>)
                     | x # xs \<Rightarrow>
                         (None, w\<lparr>channelBuffer := (channelBuffer w)(k \<mapsto> xs @ [message])\<rparr>))))
      else (None, w))"

text \<open>
  The guard \<^verbatim>\<open>message['author']['id'] == self.bot_connection.user['id'] and
  matcher['no_self_respond']\<close>: the comparison is evaluated first, left operand before
  right, and the flag only when the comparison holds.
\<close>

definition self_check :: "nat \<Rightarrow> json \<Rightarrow> matcher_entry \<Rightarrow> world \<Rightarrow> error + bool" where
  "self_check self message m w =
     (case subscript message ''author'' of
        Inl e \<Rightarrow> Inl e
      | Inr a \<Rightarrow>
         (case subscript a ''id'' of
            Inl e \<Rightarrow> Inl e
          | Inr aid \<Rightarrow>
             (case subscript (user (connections w (bot_connection (chat_handlers w self)))) ''id'' of
                Inl e \<Rightarrow> Inl e
              | Inr uid \<Rightarrow> Inr (py_eq aid uid \<and> no_self_respond m))))"

text \<open>\<^verbatim>\<open>await asyncio.coroutine(f)(x)\<close>: \<open>f\<close> runs on \<open>x\<close>; what it raises is raised.\<close>

definition await_coroutine :: "nat \<Rightarrow> json \<Rightarrow> world \<Rightarrow> error option \<times> world" where
  "await_coroutine f x w =
     ((case c_call (callables w f) x of Inl e \<Rightarrow> Some e | Inr r \<Rightarrow> None),
      emit (Called_handler f x) w)"

text \<open>
  The test \<^verbatim>\<open>if matcher['matcher'](message):\<close>. Calling a plain \<^verbatim>\<open>def\<close> runs it, and the
  value is truth-tested. Calling an \<^verbatim>\<open>async def\<close> only makes a coroutine object: the body
  does not run, nothing is raised, and the object is truthy.
\<close>

definition matcher_truth :: "callable \<Rightarrow> json \<Rightarrow> error + bool" where
  "matcher_truth f message =
     (if c_async f then Inr True
      else (case c_call f message of Inl e \<Rightarrow> Inl e | Inr r \<Rightarrow> Inr (truthy r)))"

text \<open>One round of the loop over \<^verbatim>\<open>enumerate(self.match_registry[0])\<close>, at index \<open>i\<close>.\<close>

definition match_step :: "nat \<Rightarrow> json \<Rightarrow> nat \<Rightarrow> matcher_entry \<Rightarrow> world \<Rightarrow> error option \<times> world" where
  "match_step self message i m w =
     (case self_check self message m w of
        Inl e \<Rightarrow> (Some e, w)
      | Inr skip \<Rightarrow>
          if skip then (None, w)
          else
            (let w1 = emit (Called_matcher (matcher m) message) w in
             case matcher_truth (callables w (matcher m)) message of
               Inl e \<Rightarrow> (Some e, w1)
             | Inr matched \<Rightarrow>
                 if matched then
                   (if i < length (snd (match_registry w1))
                    then await_coroutine (snd (match_registry w1) ! i) message w1
                    else (Some (IndexError ''list index out of range''), w1))
                 else (None, w1)))"

fun match_loop :: "nat \<Rightarrow> json \<Rightarrow> nat \<Rightarrow> matcher_entry list \<Rightarrow> world \<Rightarrow> error option \<times> world" where
  "match_loop self message i [] w = (None, w)"
| "match_loop self message i (m # ms) w =
     (case match_step self message i m w of
        (Some e, w1) \<Rightarrow> (Some e, w1)
      | (None, w1) \<Rightarrow> match_loop self message (Suc i) ms w1)"

definition handle_message_create :: "nat \<Rightarrow> json \<Rightarrow> world \<Rightarrow> error option \<times> world" where
  "handle_message_create self message w =
     (case buffer_message self message w of
        (Some e, w1) \<Rightarrow> (Some e, w1)
      | (None, w1) \<Rightarrow> match_loop self message 0 (fst (match_registry w1)) w1)"

section \<open>The gateway connection\<close>

text \<open>The members of the class \<^verbatim>\<open>opcodes\<close> that the program uses.\<close>

abbreviation DISPATCH :: json where "DISPATCH \<equiv> JInt 0"
abbreviation HEARTBEAT :: json where "HEARTBEAT \<equiv> JInt 1"
abbreviation IDENTIFY :: json where "IDENTIFY \<equiv> JInt 2"
abbreviation RECONNECT :: json where "RECONNECT \<equiv> JInt 7"
abbreviation INVALID_SESSION :: json where "INVALID_SESSION \<equiv> JInt 9"
abbreviation HELLO :: json where "HELLO \<equiv> JInt 10"
abbreviation HEARTBEAT_ACK :: json where "HEARTBEAT_ACK \<equiv> JInt 11"

definition update_connection :: "nat \<Rightarrow> (connection \<Rightarrow> connection) \<Rightarrow> world \<Rightarrow> world" where
  "update_connection self f w = w\<lparr>connections := (connections w)(self := f (connections w self))\<rparr>"

text \<open>\<^verbatim>\<open>send_payload(self, op, d, s=None, t=None)\<close>: the payload goes to the socket, which
  is taken to be open.\<close>

definition send_payload :: "nat \<Rightarrow> json \<Rightarrow> json \<Rightarrow> json \<Rightarrow> json \<Rightarrow> world \<Rightarrow> world" where
  "send_payload self op d s t w =
     emit (Sent (JObj [(''op'', op), (''d'', d), (''s'', s), (''t'', t)])) w"

text \<open>
  The body of the \<^verbatim>\<open>while True\<close> of \<^verbatim>\<open>heartbeat\<close>, in two parts: \<open>beat\<close> is the body up
  to and including \<^verbatim>\<open>self.ack = False\<close>; \<open>heartbeat_cycle\<close> adds the sleep, whose argument
  \<^verbatim>\<open>interval / 1000\<close> is computed only then.
\<close>

definition beat :: "nat \<Rightarrow> world \<Rightarrow> world" where
  "beat self w =
     (let w1 = (if \<not> ack (connections w self) then emit (Printed Fatal_no_ack) w else w);
          w2 = send_payload self HEARTBEAT (sequence (connections w1 self)) JNull JNull w1
      in update_connection self (\<lambda>c. c\<lparr>ack := False\<rparr>) w2)"

definition heartbeat_cycle :: "nat \<Rightarrow> json \<Rightarrow> world \<Rightarrow> error option \<times> world" where
  "heartbeat_cycle self interval w =
     (let w1 = beat self w in
      case div_1000 interval of
        Inl e \<Rightarrow> (Some e, w1)
      | Inr seconds \<Rightarrow> (None, emit (Slept seconds) w1))"

text \<open>The loop never ends by itself; \<open>heartbeat n\<close> is its first \<open>n\<close> cycles, cut short by
  an exception.\<close>

fun heartbeat :: "nat \<Rightarrow> nat \<Rightarrow> json \<Rightarrow> world \<Rightarrow> error option \<times> world" where
  "heartbeat 0 self interval w = (None, w)"
| "heartbeat (Suc n) self interval w =
     (case heartbeat_cycle self interval w of
        (Some e, w1) \<Rightarrow> (Some e, w1)
      | (None, w1) \<Rightarrow> heartbeat n self interval w1)"

text \<open>The \<^verbatim>\<open>READY\<close> branch of \<^verbatim>\<open>handle_dispatch\<close>. The loop over \<^verbatim>\<open>event['guilds']\<close>
  comes first.\<close>

fun store_guilds :: "json list \<Rightarrow> world \<Rightarrow> error option \<times> world" where
  "store_guilds [] w = (None, w)"
| "store_guilds (g # gs) w =
     (case subscript g ''id'' of
        Inl e \<Rightarrow> (Some e, w)
      | Inr i \<Rightarrow>
         (case hash_key i of
            Inl e \<Rightarrow> (Some e, w)
          | Inr k \<Rightarrow> store_guilds gs (w\<lparr>guilds := (guilds w)(k \<mapsto> g)\<rparr>)))"

definition ready :: "nat \<Rightarrow> json \<Rightarrow> world \<Rightarrow> error option \<times> world" where
  "ready self event w =
     (let w1 = (if truthy (session_id (connections w self))
                then emit (Printed Warn_repeat_ready) w else w)
      in case subscript event ''user'' of
        Inl e \<Rightarrow> (Some e, w1)
      | Inr u \<Rightarrow>
         (let w2 = update_connection self (\<lambda>c. c\<lparr>user := u\<rparr>) w1
          in case subscript event ''session_id'' of
            Inl e \<Rightarrow> (Some e, w2)
          | Inr sid \<Rightarrow>
             (let w3 = update_connection self (\<lambda>c. c\<lparr>session_id := sid\<rparr>) w2
              in case subscript event ''guilds'' of
                Inl e \<Rightarrow> (Some e, w3)
              | Inr gs \<Rightarrow>
                 (case py_iter gs of
                    Inl e \<Rightarrow> (Some e, w3)
                  | Inr items \<Rightarrow>
                     (case store_guilds items w3 of
                        (Some e, w4) \<Rightarrow> (Some e, w4)
                      | (None, w4) \<Rightarrow>
                         (case subscript (user (connections w4 self)) ''username'' of
                            Inl e \<Rightarrow> (Some e, w4)
                          | Inr name \<Rightarrow>
                             (None, emit (Printed (In_guilds (length items)))
                                      (emit (Printed (My_username name)) w4))))))))"

text \<open>
  The \<^verbatim>\<open>GUILD_CREATE\<close> branch: \<^verbatim>\<open>self.guilds[gid]\<close> is read without a membership
  test, and the warning's f-string reads \<^verbatim>\<open>guild\<close>, a name bound nowhere.
\<close>

definition guild_create :: "nat \<Rightarrow> json \<Rightarrow> world \<Rightarrow> error option \<times> world" where
  "guild_create self event w =
     (case subscript event ''id'' of
        Inl e \<Rightarrow> (Some e, w)
      | Inr gid \<Rightarrow>
         (case hash_key gid of
            Inl e \<Rightarrow> (Some e, w)
          | Inr k \<Rightarrow>
             (case guilds w k of
                None \<Rightarrow> (Some (KeyError gid), w)
              | Some g \<Rightarrow>
                 (case subscript g ''unavailable'' of
                    Inl e \<Rightarrow> (Some e, w)
                  | Inr u \<Rightarrow>
                      if \<not> truthy u then (Some (NameError ''guild''), w)
                      else (None, w\<lparr>guilds := (guilds w)(k \<mapsto> event)\<rparr>)))))"

text \<open>
  \<^verbatim>\<open>await self.dispatch_registry[eventType](event)\<close>: a user function is called as it
  was registered, so the value of one that is not an \<^verbatim>\<open>async def\<close> cannot be awaited; a
  chat handler's bound method runs \<open>handle_message_create\<close>.
\<close>

fun call_registered :: "handler \<Rightarrow> json \<Rightarrow> world \<Rightarrow> error option \<times> world" where
  "call_registered (Fn f) x w =
     (let w1 = emit (Called_handler f x) w in
      case c_call (callables w f) x of
        Inl e \<Rightarrow> (Some e, w1)
      | Inr r \<Rightarrow>
          if c_async (callables w f) then (None, w1)
          else (Some (TypeError ''object can not be used in await expression''), w1))"
| "call_registered (Message_create c) x w = handle_message_create c x w"

text \<open>\<^verbatim>\<open>handle_dispatch\<close>: the \<^verbatim>\<open>if\<close>/\<^verbatim>\<open>elif\<close> on the event type, then the registry.\<close>

definition event_switch :: "nat \<Rightarrow> json \<Rightarrow> json \<Rightarrow> world \<Rightarrow> error option \<times> world" where
  "event_switch self eventType event w =
     (if py_eq eventType (JStr ''READY'') then ready self event w
      else if py_eq eventType (JStr ''GUILD_CREATE'') then guild_create self event w
      else (None, w))"

definition handle_dispatch :: "nat \<Rightarrow> json \<Rightarrow> world \<Rightarrow> error option \<times> world" where
  "handle_dispatch self message w =
     (case subscript message ''t'' of
        Inl e \<Rightarrow> (Some e, w)
      | Inr eventType \<Rightarrow>
         (case subscript message ''d'' of
            Inl e \<Rightarrow> (Some e, w)
          | Inr event \<Rightarrow>
             (case event_switch self eventType event w of
                (Some e, w1) \<Rightarrow> (Some e, w1)
              | (None, w1) \<Rightarrow>
                 (case hash_key eventType of
                    Inl e \<Rightarrow> (Some e, w1)
                  | Inr k \<Rightarrow>
                     (case dispatch_registry w1 k of
                        None \<Rightarrow> (None, w1)
                      | Some h \<Rightarrow> call_registered h event w1)))))"

text \<open>The \<^verbatim>\<open>HELLO\<close> branch of \<^verbatim>\<open>handle_message\<close>.\<close>

definition hello :: "nat \<Rightarrow> json \<Rightarrow> world \<Rightarrow> error option \<times> world" where
  "hello self message w =
     (case subscript message ''d'' of
        Inl e \<Rightarrow> (Some e, w)
      | Inr d \<Rightarrow>
         (case subscript d ''heartbeat_interval'' of
            Inl e \<Rightarrow> (Some e, w)
          | Inr interval \<Rightarrow>
              (None, emit (Scheduled_heartbeat self interval)
                       (emit (Printed (Hello_received interval)) w))))"

text \<open>
  \<^verbatim>\<open>handle_message\<close>: the \<^verbatim>\<open>if\<close>/\<^verbatim>\<open>elif\<close> on the opcode, then the registry. In the
  \<^verbatim>\<open>DISPATCH\<close> branch \<^verbatim>\<open>sequence = message['s']\<close> binds a local name: the subscript is
  evaluated and nothing is stored. The last branch's f-string reads \<^verbatim>\<open>op\<close>, a name bound
  nowhere.
\<close>

definition opcode_switch :: "nat \<Rightarrow> json \<Rightarrow> json \<Rightarrow> world \<Rightarrow> error option \<times> world" where
  "opcode_switch self opcode message w =
     (if py_eq opcode DISPATCH then
        (case subscript message ''s'' of
           Inl e \<Rightarrow> (Some e, w)
         | Inr s \<Rightarrow> handle_dispatch self message w)
      else if py_eq opcode HEARTBEAT then (None, w)
      else if py_eq opcode RECONNECT then (None, w)
      else if py_eq opcode INVALID_SESSION then (None, w)
      else if py_eq opcode HELLO then hello self message w
      else if py_eq opcode HEARTBEAT_ACK
        then (None, update_connection self (\<lambda>c. c\<lparr>ack := True\<rparr>) w)
      else (Some (NameError ''op''), w))"

definition handle_message :: "nat \<Rightarrow> json \<Rightarrow> world \<Rightarrow> error option \<times> world" where
  "handle_message self message w =
     (case subscript message ''op'' of
        Inl e \<Rightarrow> (Some e, w)
      | Inr opcode \<Rightarrow>
         (case opcode_switch self opcode message w of
            (Some e, w1) \<Rightarrow> (Some e, w1)
          | (None, w1) \<Rightarrow>
             (case hash_key opcode of
                Inl e \<Rightarrow> (Some e, w1)
              | Inr k \<Rightarrow>
                 (case message_registry w1 k of
                    None \<Rightarrow> (None, w1)
                  | Some f \<Rightarrow> await_coroutine f message w1))))"

text \<open>\<^verbatim>\<open>identify\<close>; \<open>now\<close> stands for the value of \<^verbatim>\<open>time.time()\<close>.\<close>

definition identify_payload :: "string \<Rightarrow> json \<Rightarrow> json" where
  "identify_payload token now =
     JObj [(''token'', JStr token),
           (''properties'', JObj [(''$os'', JStr ''linux''), (''$browser'', JStr ''aiohttp''),
                                  (''$device'', JStr ''aiohttp'')]),
           (''compress'', JBool False),
           (''presence'', JObj [(''since'', now), (''status'', JStr ''online''),
                                (''afk'', JBool False)])]"

definition identify :: "nat \<Rightarrow> json \<Rightarrow> world \<Rightarrow> world" where
  "identify self now w =
     send_payload self IDENTIFY (identify_payload (botToken (connections w self)) now) JNull JNull w"

text \<open>
  \<^verbatim>\<open>start\<close>: \<open>response\<close> is the decoded body of \<^verbatim>\<open>GET /gateway/bot\<close> and \<open>incoming\<close> the
  envelopes the socket yields until it closes. The request and the connection are taken
  to succeed.
\<close>

fun read_loop :: "nat \<Rightarrow> json list \<Rightarrow> world \<Rightarrow> error option \<times> world" where
  "read_loop self [] w = (None, w)"
| "read_loop self (m # ms) w =
     (case handle_message self m w of
        (Some e, w1) \<Rightarrow> (Some e, w1)
      | (None, w1) \<Rightarrow> read_loop self ms w1)"

definition start :: "nat \<Rightarrow> json \<Rightarrow> json \<Rightarrow> json list \<Rightarrow> world \<Rightarrow> error option \<times> world" where
  "start self response now incoming w =
     (case subscript response ''url'' of
        Inl e \<Rightarrow> (Some e, w)
      | Inr gatewayUrl \<Rightarrow> read_loop self incoming (identify self now w))"

section \<open>Example data\<close>

text \<open>Functions of an example bot: function \<open>f\<close> is named \<^verbatim>\<open>f\<close> and returns \<^verbatim>\<open>True\<close> when
  \<open>f\<close> is odd and \<^verbatim>\<open>False\<close> otherwise, whatever it is given. The functions below 10 are
  plain \<^verbatim>\<open>def\<close>s (the matchers of the examples), the others are \<^verbatim>\<open>async def\<close>s (the
  handlers).\<close>

definition example_functions :: "nat \<Rightarrow> callable" where
  "example_functions f =
     \<lparr>c_name = ''f'', c_async = (10 \<le> f), c_call = (\<lambda>x. Inr (JBool (odd f)))\<rparr>"

definition envelope :: "int \<Rightarrow> json \<Rightarrow> json \<Rightarrow> json \<Rightarrow> json" where
  "envelope opc d s t = JObj [(''op'', JInt opc), (''d'', d), (''s'', s), (''t'', t)]"

definition chat_message :: "string \<Rightarrow> string \<Rightarrow> string \<Rightarrow> json" where
  "chat_message channel author content =
     JObj [(''channel_id'', JStr channel), (''author'', JObj [(''id'', JStr author)]),
           (''content'', JStr content)]"

definition ready_event :: "string \<Rightarrow> string \<Rightarrow> string \<Rightarrow> json" where
  "ready_event uid name sid =
     JObj [(''user'', JObj [(''id'', JStr uid), (''username'', JStr name)]),
           (''session_id'', JStr sid), (''guilds'', JArr [])]"

text \<open>Whether an effect is a payload written to the socket.\<close>

fun is_sent :: "event \<Rightarrow> bool" where
  "is_sent (Sent p) = True"
| "is_sent e = False"

text \<open>
  Example states. \<open>one_bot\<close>: connection 0 with a chat handler 0 constructed on it.
  \<open>two_bots\<close>: a second chat handler 1 constructed on connection 1 as well.
  \<open>after_ready\<close>: \<open>one_bot\<close> once connection 0 has handled a first \<^verbatim>\<open>READY\<close> (user \<^verbatim>\<open>U0\<close>,
  session \<^verbatim>\<open>S1\<close>). \<open>three_matchers\<close>: the same with three matchers registered on chat
  handler 0, the functions 1, 2 and 3, bound to the handlers 11, 12 and 13.
\<close>

definition one_bot :: world where
  "one_bot = snd (chat_handler_init 0 0 None (module_loaded example_functions))"

definition two_bots :: world where
  "two_bots = snd (chat_handler_init 1 1 None one_bot)"

definition after_ready :: world where
  "after_ready =
     snd (handle_dispatch 0 (envelope 0 (ready_event ''U0'' ''bot'' ''S1'') (JInt 1) (JStr ''READY''))
            one_bot)"

definition three_matchers :: world where
  "three_matchers =
     snd (register_match 0 3 13 True (snd (register_match 0 2 12 True
       (snd (register_match 0 1 11 True after_ready)))))"

definition hello_envelope :: json where
  "hello_envelope = envelope 10 (JObj [(''heartbeat_interval'', JInt 41250)]) JNull JNull"

section \<open>What a step leaves alone\<close>

text \<open>
  Relations between the state before and after a step, used in the proofs below:
  \<open>unsent\<close> says that the step only added effects, none of them a payload written to the
  socket; \<open>kept\<close> adds that the registries, the chat handlers and the functions are the
  same; \<open>kept_session\<close> adds that the connections and the guilds are the same.
\<close>

definition unsent :: "world \<Rightarrow> world \<Rightarrow> bool" where
  "unsent w w' = (\<exists>more. effects w' = effects w @ more \<and> filter is_sent more = [])"

definition kept :: "world \<Rightarrow> world \<Rightarrow> bool" where
  "kept w w' =
     (dispatch_registry w' = dispatch_registry w \<and> message_registry w' = message_registry w
      \<and> match_registry w' = match_registry w \<and> chat_handlers w' = chat_handlers w
      \<and> callables w' = callables w \<and> unsent w w')"

definition kept_session :: "world \<Rightarrow> world \<Rightarrow> bool" where
  "kept_session w w' = (kept w w' \<and> connections w' = connections w \<and> guilds w' = guilds w)"

section \<open>Running the program on concrete inputs\<close>

lemmas run_defs =
  handle_message_def opcode_switch_def event_switch_def handle_dispatch_def module_loaded_def
  new_connection_def py_eq_def hash_key_def emit_def update_connection_def send_payload_def
  beat_def heartbeat_cycle_def guild_create_def ready_def hello_def await_coroutine_def
  register_dispatch_def register_message_def register_match_def envelope_def
  example_functions_def chat_message_def ready_event_def handle_message_create_def
  buffer_message_def match_step_def self_check_def identify_def identify_payload_def start_def
  matcher_truth_def fits_float_def
  after_ready_def three_matchers_def hello_envelope_def one_bot_def two_bots_def
  chat_handler_init_def

section \<open>Frame lemmas\<close>

lemma unsent_refl [simp]: "unsent w w"
  by (simp add: unsent_def)

lemma unsent_trans: "unsent w w1 \<Longrightarrow> unsent w1 w2 \<Longrightarrow> unsent w w2"
  by (auto simp: unsent_def)

lemma kept_refl [simp]: "kept w w"
  by (simp add: kept_def)

lemma kept_trans: "kept w w1 \<Longrightarrow> kept w1 w2 \<Longrightarrow> kept w w2"
  by (auto simp: kept_def intro: unsent_trans)

lemma kept_session_refl [simp]: "kept_session w w"
  by (simp add: kept_session_def)

lemma kept_session_trans: "kept_session w w1 \<Longrightarrow> kept_session w1 w2 \<Longrightarrow> kept_session w w2"
  by (auto simp: kept_session_def intro: kept_trans)

lemma kept_session_kept: "kept_session w w' \<Longrightarrow> kept w w'"
  by (simp add: kept_session_def)

lemma kept_session_emit: "\<not> is_sent e \<Longrightarrow> kept_session w (emit e w)"
  by (simp add: kept_session_def kept_def unsent_def emit_def)

lemma kept_session_channelBuffer [simp]: "kept_session w (w\<lparr>channelBuffer := cb\<rparr>)"
  by (simp add: kept_session_def kept_def unsent_def)

lemma kept_guilds [simp]: "kept w (w\<lparr>guilds := g\<rparr>)"
  by (simp add: kept_def unsent_def)

lemma kept_update_connection [simp]: "kept w (update_connection self f w)"
  by (simp add: kept_def unsent_def update_connection_def)

lemma buffer_message_frame:
  "\<exists>cb. snd (buffer_message self message w) = w\<lparr>channelBuffer := cb\<rparr>"
  unfolding buffer_message_def Let_def
  by (auto split: sum.splits list.splits option.splits intro: exI[of _ "channelBuffer w"])

lemma buffer_message_kept: "kept_session w (snd (buffer_message self message w))"
  using buffer_message_frame[of self message w] by auto

lemma await_coroutine_kept: "kept_session w (snd (await_coroutine f x w))"
  by (simp add: await_coroutine_def kept_session_emit)

lemma match_step_kept: "kept_session w (snd (match_step self message i m w))"
proof -
  have 1: "kept_session w (emit (Called_matcher (matcher m) message) w)"
    by (simp add: kept_session_emit)
  have 2: "kept_session w (snd (await_coroutine f message (emit (Called_matcher (matcher m) message) w)))" for f
    using kept_session_trans[OF 1 await_coroutine_kept] .
  show ?thesis
    unfolding match_step_def Let_def
    using 1 2 by (auto split: sum.splits)
qed

lemma match_loop_kept: "kept_session w (snd (match_loop self message i ms w))"
proof (induction ms arbitrary: i w)
  case Nil
  show ?case by simp
next
  case (Cons m ms)
  obtain r w1 where s: "match_step self message i m w = (r, w1)" by (cases "match_step self message i m w")
  have k: "kept_session w w1" using match_step_kept[of w self message i m] s by simp
  show ?case
  proof (cases r)
    case None
    then show ?thesis using s k Cons[of w1 "Suc i"] by (auto intro: kept_session_trans)
  next
    case (Some e)
    then show ?thesis using s k by simp
  qed
qed

lemma handle_message_create_kept: "kept_session w (snd (handle_message_create self message w))"
proof -
  obtain r w1 where b: "buffer_message self message w = (r, w1)" by (cases "buffer_message self message w")
  have k: "kept_session w w1" using buffer_message_kept[of w self message] b by simp
  show ?thesis
  proof (cases r)
    case None
    then show ?thesis using b k match_loop_kept[of w1 self message 0 "fst (match_registry w1)"]
      by (auto simp: handle_message_create_def intro: kept_session_trans)
  next
    case (Some e)
    then show ?thesis using b k by (simp add: handle_message_create_def)
  qed
qed

lemma call_registered_kept: "kept_session w (snd (call_registered h x w))"
proof (cases h)
  case (Fn f)
  then show ?thesis by (auto simp: Let_def kept_session_emit split: sum.splits)
next
  case (Message_create c)
  then show ?thesis by (simp add: handle_message_create_kept)
qed

lemma store_guilds_frame: "\<exists>g. snd (store_guilds gs w) = w\<lparr>guilds := g\<rparr>"
proof (induction gs arbitrary: w)
  case Nil
  show ?case by (auto intro: exI[of _ "guilds w"])
next
  case (Cons g gs)
  show ?case
  proof (cases "subscript g ''id''")
    case (Inl e)
    then show ?thesis by (auto intro: exI[of _ "guilds w"])
  next
    case (Inr i)
    show ?thesis
    proof (cases "hash_key i")
      case (Inl e)
      then show ?thesis using Inr by (auto intro: exI[of _ "guilds w"])
    next
      case (Inr k)
      obtain g' where "snd (store_guilds gs (w\<lparr>guilds := (guilds w)(k \<mapsto> g)\<rparr>)) = w\<lparr>guilds := (guilds w)(k \<mapsto> g)\<rparr>\<lparr>guilds := g'\<rparr>"
        using Cons[of "w\<lparr>guilds := (guilds w)(k \<mapsto> g)\<rparr>"] by blast
      then show ?thesis using \<open>subscript g ''id'' = Inr i\<close> Inr by (auto intro!: exI[of _ g'])
    qed
  qed
qed


lemma store_guilds_kept: "kept w (snd (store_guilds gs w))"
  using store_guilds_frame[of gs w] by auto

lemma store_guilds_connections: "connections (snd (store_guilds gs w)) = connections w"
  using store_guilds_frame[of gs w] by auto

lemma store_guilds_effects: "effects (snd (store_guilds gs w)) = effects w"
  using store_guilds_frame[of gs w] by auto

lemma kept_emit: "\<not> is_sent e \<Longrightarrow> kept w (emit e w)"
  by (simp add: kept_session_emit kept_session_kept)

lemma ready_kept: "kept w (snd (ready self event w))"
proof -
  define w1 where "w1 = (if truthy (session_id (connections w self))
                then emit (Printed Warn_repeat_ready) w else w)"
  have k1: "kept w w1" by (simp add: w1_def kept_emit)
  have step: "kept w (f w')" if "kept w w'" "kept w' (f w')" for f w'
    using that kept_trans by blast
  have k2: "kept w (update_connection self f w1)" for f
    using k1 kept_update_connection kept_trans by blast
  have k3: "kept w (update_connection self f' (update_connection self f w1))" for f f'
    using k2 kept_update_connection kept_trans by blast
  have k4: "kept w (snd (store_guilds gs (update_connection self f' (update_connection self f w1))))" for f f' gs
    using k3 store_guilds_kept kept_trans by blast
  have k5: "kept w (emit (Printed l2) (emit (Printed l1) w4))" if "kept w w4" for w4 l1 l2
    using that kept_emit[of "Printed l1" w4] kept_emit[of "Printed l2" "emit (Printed l1) w4"]
    by (auto intro: kept_trans)
  have k4': "kept w w4"
    if "store_guilds gs (update_connection self f' (update_connection self f w1)) = (r, w4)"
    for f f' gs r w4
    using k4[of gs f' f] that by simp
  show ?thesis
    unfolding ready_def Let_def w1_def[symmetric]
    by (auto split: sum.splits prod.splits option.splits simp: k1 k2 k3 intro: k5 k4')
qed


lemma guild_create_kept: "kept w (snd (guild_create self event w))"
  unfolding guild_create_def
  by (auto split: sum.splits option.splits)

lemma event_switch_kept: "kept w (snd (event_switch self t event w))"
  by (simp add: event_switch_def ready_kept guild_create_kept)

lemma handle_dispatch_kept: "kept w (snd (handle_dispatch self message w))"
proof -
  have 1: "kept w w1" if "event_switch self t event w = (r, w1)" for t event r w1
    using event_switch_kept[of w self t event] that by simp
  have 2: "kept w (snd (call_registered h x w1))" if "kept w w1" for h x w1
    using that call_registered_kept[of w1 h x] kept_session_kept kept_trans by blast
  show ?thesis
    unfolding handle_dispatch_def
    by (auto split: sum.splits prod.splits option.splits intro: 1 2)
qed

lemma hello_kept: "kept w (snd (hello self message w))"
proof -
  have "kept w (emit (Scheduled_heartbeat self iv) (emit (Printed (Hello_received iv)) w))" for iv
    using kept_emit[of "Printed (Hello_received iv)" w]
      kept_emit[of "Scheduled_heartbeat self iv" "emit (Printed (Hello_received iv)) w"]
    by (auto intro: kept_trans)
  then show ?thesis
    unfolding hello_def by (auto split: sum.splits)
qed

lemma opcode_switch_kept: "kept w (snd (opcode_switch self opcode message w))"
  unfolding opcode_switch_def
  by (auto split: sum.splits simp: handle_dispatch_kept hello_kept)

lemma handle_message_kept: "kept w (snd (handle_message self message w))"
proof -
  have 1: "kept w w1" if "opcode_switch self opcode message w = (r, w1)" for opcode r w1
    using opcode_switch_kept[of w self opcode message] that by simp
  have 2: "kept w (snd (await_coroutine f x w1))" if "kept w w1" for f x w1
    using that await_coroutine_kept[of w1 f x] kept_session_kept kept_trans by blast
  show ?thesis
    unfolding handle_message_def
    by (auto split: sum.splits prod.splits option.splits intro: 1 2)
qed

lemma read_loop_kept: "kept w (snd (read_loop self ms w))"
proof (induction ms arbitrary: w)
  case Nil
  show ?case by simp
next
  case (Cons m ms)
  obtain r w1 where s: "handle_message self m w = (r, w1)" by (cases "handle_message self m w")
  have k: "kept w w1" using handle_message_kept[of w self m] s by simp
  show ?case
  proof (cases r)
    case None
    then show ?thesis using s k Cons[of w1] by (auto intro: kept_trans)
  next
    case (Some e)
    then show ?thesis using s k by simp
  qed
qed

lemma ready_session:
  assumes "subscript event ''user'' = Inr u" and "subscript event ''session_id'' = Inr sid"
  shows "connections (snd (ready self event w))
           = (connections w)(self := (connections w self)\<lparr>user := u, session_id := sid\<rparr>)"
    and "\<exists>more. effects (snd (ready self event w))
           = effects w @ (if truthy (session_id (connections w self))
                          then [Printed Warn_repeat_ready] else []) @ more"
proof -
  define w1 where "w1 = (if truthy (session_id (connections w self))
                then emit (Printed Warn_repeat_ready) w else w)"
  define w3 where "w3 = update_connection self (\<lambda>c. c\<lparr>session_id := sid\<rparr>)
                          (update_connection self (\<lambda>c. c\<lparr>user := u\<rparr>) w1)"
  have c3: "connections w3 = (connections w)(self := (connections w self)\<lparr>user := u, session_id := sid\<rparr>)"
    by (simp add: w3_def w1_def update_connection_def emit_def)
  have e3: "effects w3 = effects w @ (if truthy (session_id (connections w self))
                          then [Printed Warn_repeat_ready] else [])"
    by (simp add: w3_def w1_def update_connection_def emit_def)
  have sg: "connections w4 = connections w3 \<and> effects w4 = effects w3"
    if "store_guilds gs w3 = (r, w4)" for gs r w4
    using store_guilds_connections[of gs w3] store_guilds_effects[of gs w3] that by simp
  have shape: "connections (snd (ready self event w)) = connections w3
      \<and> (\<exists>more. effects (snd (ready self event w)) = effects w3 @ more)"
    unfolding ready_def Let_def w1_def[symmetric] using assms
    by (auto simp: w3_def[symmetric] emit_def split: sum.splits prod.splits option.splits dest: sg)
  show "connections (snd (ready self event w))
           = (connections w)(self := (connections w self)\<lparr>user := u, session_id := sid\<rparr>)"
    using shape c3 by simp
  show "\<exists>more. effects (snd (ready self event w))
           = effects w @ (if truthy (session_id (connections w self))
                          then [Printed Warn_repeat_ready] else []) @ more"
    using shape e3 by auto
qed


lemma kept_session_connections: "kept_session w w' \<Longrightarrow> connections w' = connections w"
  by (simp add: kept_session_def)

lemma kept_session_effects: "kept_session w w' \<Longrightarrow> \<exists>more. effects w' = effects w @ more"
  by (auto simp: kept_session_def kept_def unsent_def)

lemma identify_effects:
  "effects (identify self now w)
     = effects w @ [Sent (JObj [(''op'', IDENTIFY),
                               (''d'', identify_payload (botToken (connections w self)) now),
                               (''s'', JNull), (''t'', JNull)])]"
  by (simp add: identify_def send_payload_def emit_def)

lemma hello_handled:
  assumes "subscript message ''op'' = Inr opc" and "py_eq opc HELLO"
    and "subscript message ''d'' = Inr d" and "subscript d ''heartbeat_interval'' = Inr iv"
  shows "effects (snd (handle_message self message w))
       = effects w @ [Printed (Hello_received iv), Scheduled_heartbeat self iv]
           @ (case message_registry w HELLO of None \<Rightarrow> [] | Some f \<Rightarrow> [Called_handler f message])"
proof -
  have c: "canon opc = JInt 10" using assms(2) by (simp add: py_eq_def)
  then have h: "hash_key opc = Inr (JInt 10)"
    by (cases opc) (simp_all add: hash_key_def)
  have sw: "opcode_switch self opc message w
      = (None, emit (Scheduled_heartbeat self iv) (emit (Printed (Hello_received iv)) w))"
    using assms(3,4) c by (simp add: opcode_switch_def py_eq_def hello_def)
  show ?thesis
    using assms(1) h sw
    by (simp add: handle_message_def emit_def await_coroutine_def split: option.splits)
qed

lemma event_switch_dispatch_registry:
  "event_switch self t event w = (r, w1) \<Longrightarrow> dispatch_registry w1 = dispatch_registry w"
  using event_switch_kept[of w self t event] by (simp add: kept_def)

lemma opcode_switch_message_registry:
  "opcode_switch self opc message w = (r, w1) \<Longrightarrow> message_registry w1 = message_registry w"
  using opcode_switch_kept[of w self opc message] by (simp add: kept_def)

lemma handle_dispatch_calls_bound:
  assumes "subscript message ''t'' = Inr t" and "subscript message ''d'' = Inr event"
    and "hash_key t = Inr k" and "dispatch_registry w k = Some h"
  shows "handle_dispatch self message w
     = (case event_switch self t event w of
          (Some e, w1) \<Rightarrow> (Some e, w1)
        | (None, w1) \<Rightarrow> call_registered h event w1)"
  using assms
  by (auto simp: handle_dispatch_def split: prod.splits option.splits
           dest: event_switch_dispatch_registry)

lemma handle_message_calls_bound:
  assumes "subscript message ''op'' = Inr opc"
    and "hash_key opc = Inr k" and "message_registry w k = Some f"
  shows "handle_message self message w
     = (case opcode_switch self opc message w of
          (Some e, w1) \<Rightarrow> (Some e, w1)
        | (None, w1) \<Rightarrow> await_coroutine f message w1)"
  using assms
  by (auto simp: handle_message_def split: prod.splits option.splits
           dest: opcode_switch_message_registry)

section \<open>Lemmas on the chat handler\<close>

lemma buffer_message_completes:
  assumes "bufferSize (chat_handlers w self) \<le> 0
           \<or> (subscript message ''channel_id'' = Inr c \<and> hashable c
               \<and> channelBuffer w (canon c) \<noteq> Some [])"
  shows "fst (buffer_message self message w) = None"
  using assms
proof
  assume "bufferSize (chat_handlers w self) \<le> 0"
  then show ?thesis by (simp add: buffer_message_def)
next
  assume h: "subscript message ''channel_id'' = Inr c \<and> hashable c \<and> channelBuffer w (canon c) \<noteq> Some []"
  show ?thesis
  proof (cases "bufferSize (chat_handlers w self) > 0")
    case False
    then show ?thesis by (simp add: buffer_message_def)
  next
    case True
    then have "replicate (nat (bufferSize (chat_handlers w self))) JNull \<noteq> []" by simp
    with h True show ?thesis
      by (auto simp: buffer_message_def hash_key_def Let_def split: option.splits list.splits)
  qed
qed

lemma self_check_channelBuffer [simp]:
  "self_check self message m (w\<lparr>channelBuffer := cb\<rparr>) = self_check self message m w"
  by (simp add: self_check_def cong: sum.case_cong)

lemma self_check_effects [simp]:
  "self_check self message m (emit e w) = self_check self message m w"
  by (simp add: self_check_def emit_def cong: sum.case_cong)

lemma emit_fields [simp]:
  "callables (emit e w) = callables w"
  "match_registry (emit e w) = match_registry w"
  "connections (emit e w) = connections w"
  "chat_handlers (emit e w) = chat_handlers w"
  "effects (emit e w) = effects w @ [e]"
  by (simp_all add: emit_def)

lemma match_step_match:
  assumes "self_check self message m w = Inr False"
    and "matcher_truth (callables w (matcher m)) message = Inr True"
    and "i < length (snd (match_registry w))"
    and "c_call (callables w (snd (match_registry w) ! i)) message = Inr v"
  shows "match_step self message i m w
    = (None, emit (Called_handler (snd (match_registry w) ! i) message) (emit (Called_matcher (matcher m) message) w))"
  using assms by (simp add: match_step_def await_coroutine_def Let_def)

lemma match_step_no_match:
  assumes "self_check self message m w = Inr False"
    and "matcher_truth (callables w (matcher m)) message = Inr False"
  shows "match_step self message i m w = (None, emit (Called_matcher (matcher m) message) w)"
  using assms by (simp add: match_step_def Let_def)

lemma self_check_no_user:
  assumes "user (connections w (bot_connection (chat_handlers w self))) = JNull"
  shows "\<exists>e. self_check self message m w = Inl e"
  using assms by (auto simp: self_check_def split: sum.splits)

lemma self_check_no_user_wf:
  assumes "user (connections w (bot_connection (chat_handlers w self))) = JNull"
    and "subscript message ''author'' = Inr a" and "subscript a ''id'' = Inr aid"
  shows "self_check self message m w = Inl (TypeError ''NoneType object is not subscriptable'')"
  using assms by (simp add: self_check_def)

section \<open>Lemmas on the heartbeat\<close>

lemma beat_effects:
  "effects (beat self w) = effects w @ (if ack (connections w self) then [] else [Printed Fatal_no_ack])
      @ [Sent (JObj [(''op'', HEARTBEAT), (''d'', sequence (connections w self)), (''s'', JNull), (''t'', JNull)])]"
  by (simp add: beat_def send_payload_def emit_def update_connection_def Let_def)

lemma beat_ack: "ack (connections (beat self w) self) = False"
  by (simp add: beat_def send_payload_def emit_def update_connection_def Let_def)

lemma heartbeat_cycle_int:
  "fits_float (of_int ms / 1000) \<Longrightarrow>
   heartbeat_cycle self (JInt ms) w = (None, emit (Slept (of_int ms / 1000)) (beat self w))"
  by (simp add: heartbeat_cycle_def Let_def)

lemma heartbeat_cycle_overflow:
  "\<not> fits_float (of_int ms / 1000) \<Longrightarrow>
   heartbeat_cycle self (JInt ms) w
     = (Some (OverflowError ''integer division result too large for a float''), beat self w)"
  by (simp add: heartbeat_cycle_def Let_def)

lemma heartbeat_sent_count:
  assumes "fits_float (of_int ms / 1000)"
  shows "length (filter is_sent (effects (snd (heartbeat n self (JInt ms) w))))
     = length (filter is_sent (effects w)) + n"
proof (induction n arbitrary: w)
  case 0
  show ?case by simp
next
  case (Suc n)
  have "length (filter is_sent (effects (emit (Slept (of_int ms / 1000)) (beat self w))))
          = Suc (length (filter is_sent (effects w)))"
    by (simp add: emit_def beat_effects)
  with Suc[of "emit (Slept (of_int ms / 1000)) (beat self w)"] show ?case
    by (simp add: heartbeat_cycle_int[OF assms])
qed

lemma heartbeat_completes:
  "fits_float (of_int ms / 1000) \<Longrightarrow> fst (heartbeat n self (JInt ms) w) = None"
  by (induction n arbitrary: w) (simp_all add: heartbeat_cycle_int)

section \<open>Sequence numbers of dispatch envelopes\<close>

text \<open>
  C1. The claim: after a dispatch envelope with \<^verbatim>\<open>s = n\<close> the session's \<^verbatim>\<open>sequence\<close> is
  \<open>n\<close>, and heartbeats carry it. The code assigns \<^verbatim>\<open>message['s']\<close> to a local variable.
  On a freshly loaded module, connection 0 handles the envelope
  \<^verbatim>\<open>{"op": 0, "d": {}, "s": 5, "t": "TYPING_START"}\<close> without raising, its \<^verbatim>\<open>sequence\<close> is
  still \<^verbatim>\<open>None\<close> afterwards, and the next heartbeat sends \<^verbatim>\<open>d = None\<close>.
\<close>

theorem dispatch_sequence_not_recorded:
  "fst (handle_message 0 (envelope 0 (JObj []) (JInt 5) (JStr ''TYPING_START''))
          (module_loaded example_functions)) = None
   \<and> sequence (connections (snd (handle_message 0
          (envelope 0 (JObj []) (JInt 5) (JStr ''TYPING_START''))
          (module_loaded example_functions))) 0) = JNull
   \<and> effects (beat 0 (snd (handle_message 0
          (envelope 0 (JObj []) (JInt 5) (JStr ''TYPING_START''))
          (module_loaded example_functions)))) = [Sent (envelope 1 JNull JNull JNull)]"
  by (simp add: run_defs)

section \<open>Guild creation\<close>

text \<open>
  C6. The claim: a \<^verbatim>\<open>GUILD_CREATE\<close> stores the guild without error, a previously unknown
  guild included, and warns only for a known guild that is not unavailable. The code reads
  \<^verbatim>\<open>self.guilds[gid]\<close> first. For an unknown guild id that raises \<^verbatim>\<open>KeyError\<close> and nothing
  is stored; for a guild that \<^verbatim>\<open>READY\<close> listed as available, building the warning raises
  \<^verbatim>\<open>NameError\<close> (\<^verbatim>\<open>guild\<close>) and the stored record is not replaced.
\<close>

theorem guild_create_unknown_guild_raises:
  "handle_dispatch 0
      (envelope 0 (JObj [(''id'', JStr ''41771983423143937''), (''name'', JStr ''g'')])
         (JInt 2) (JStr ''GUILD_CREATE''))
      (module_loaded example_functions)
     = (Some (KeyError (JStr ''41771983423143937'')), module_loaded example_functions)
   \<and> fst (handle_dispatch 0
      (envelope 0 (JObj [(''id'', JStr ''41''), (''name'', JStr ''new'')])
         (JInt 2) (JStr ''GUILD_CREATE''))
      (snd (handle_dispatch 0
         (envelope 0
            (JObj [(''user'', JObj [(''id'', JStr ''1''), (''username'', JStr ''bot'')]),
                   (''session_id'', JStr ''s1''),
                   (''guilds'', JArr [JObj [(''id'', JStr ''41''), (''unavailable'', JBool False)]])])
            (JInt 1) (JStr ''READY''))
         (module_loaded example_functions))))
     = Some (NameError ''guild'')"
  by (simp add: run_defs)

section \<open>Unknown opcodes\<close>

text \<open>
  C7. The claim: an envelope with an opcode outside 0-11 is logged, changes nothing, does
  not raise, and the opcode registry is then consulted. The code raises \<^verbatim>\<open>NameError\<close>
  (\<^verbatim>\<open>op\<close>) while building the warning: on \<^verbatim>\<open>{"op": 12, ...}\<close> the state is unchanged, but the
  call raises, also when a handler is registered for opcode 12, which is never run.
\<close>

theorem unknown_opcode_raises:
  "handle_message 0 (envelope 12 JNull JNull JNull) (module_loaded example_functions)
     = (Some (NameError ''op''), module_loaded example_functions)
   \<and> handle_message 0 (envelope 12 JNull JNull JNull)
        (snd (register_message 0 (JInt 12) 4 (module_loaded example_functions)))
     = (Some (NameError ''op''),
        snd (register_message 0 (JInt 12) 4 (module_loaded example_functions)))
   \<and> message_registry (snd (register_message 0 (JInt 12) 4 (module_loaded example_functions)))
        (JInt 12) = Some 4"
  by (simp add: run_defs)

section \<open>State shared between instances\<close>

text \<open>
  C9. The claim: registries and channel buffers belong to one instance. In the code they
  are class attributes, so all instances use the same ones. A handler that connection 0
  registers for \<^verbatim>\<open>TYPING_START\<close> is run when connection 1 handles such a dispatch.
  Constructing chat handler 1 on connection 1 warns that \<^verbatim>\<open>MESSAGE_CREATE\<close> is already
  registered (by chat handler 0, on connection 0) and takes the binding over. A message
  buffered by chat handler 0 sits in the buffer that chat handler 1 then appends to. A
  matcher registered on chat handler 0 is called when chat handler 1 handles a message.
\<close>

theorem class_level_state_shared:
  "effects (snd (handle_dispatch 1 (envelope 0 (JObj []) (JInt 1) (JStr ''TYPING_START''))
      (snd (register_dispatch 0 (JStr ''TYPING_START'') (Fn 11)
         (module_loaded example_functions)))))
    = [Called_handler 11 (JObj [])]
   \<and> effects two_bots
    = [Printed (Warn_dispatch_registered (JStr ''MESSAGE_CREATE'') ''handle_message_create'')]
   \<and> dispatch_registry two_bots (JStr ''MESSAGE_CREATE'') = Some (Message_create 1)
   \<and> channelBuffer (snd (handle_message_create 1 (chat_message ''C1'' ''U2'' ''pong'')
       (snd (handle_message_create 0 (chat_message ''C1'' ''U1'' ''ping'') two_bots))))
         (JStr ''C1'')
    = Some [JNull, chat_message ''C1'' ''U1'' ''ping'', chat_message ''C1'' ''U2'' ''pong'']
   \<and> effects (snd (handle_message_create 1 (chat_message ''C1'' ''U1'' ''ping'')
       (snd (register_match 0 3 13 True
          (snd (handle_dispatch 1
             (envelope 0 (ready_event ''U0'' ''bot'' ''S'') (JInt 1) (JStr ''READY''))
             two_bots))))))
    = [Printed (Warn_dispatch_registered (JStr ''MESSAGE_CREATE'') ''handle_message_create''),
       Printed (My_username (JStr ''bot'')), Printed (In_guilds 0),
       Called_matcher 3 (chat_message ''C1'' ''U1'' ''ping''),
       Called_handler 13 (chat_message ''C1'' ''U1'' ''ping'')]"
  by (simp add: run_defs numeral_3_eq_3)

section \<open>The heartbeat loop\<close>

text \<open>
  C5. Each cycle of the heartbeat loop, in order: reports the liveness failure when \<open>ack\<close>
  is false, sends exactly one envelope \<^verbatim>\<open>{op: 1, d: sequence}\<close> (with \<^verbatim>\<open>s\<close> and \<^verbatim>\<open>t\<close> at
  \<^verbatim>\<open>None\<close>) and sets \<open>ack\<close> to false, so \<open>ack\<close> is false right after the send. Then, for
  an interval that is an integer number of milliseconds whose thousandth is within the
  range of a float (as any interval the gateway sends is), it sleeps \<^verbatim>\<open>interval / 1000\<close>
  seconds, that is \<open>interval\<close> milliseconds, before the next cycle, and \<open>n\<close> cycles send
  \<open>n\<close> heartbeats. (Beyond that range the division raises after the send and the loop
  ends: \<open>heartbeat_cycle_overflow\<close>.)
\<close>

theorem heartbeat_cycle_sends_once_then_sleeps:
  "effects (beat self w)
     = effects w @ (if ack (connections w self) then [] else [Printed Fatal_no_ack])
         @ [Sent (JObj [(''op'', HEARTBEAT), (''d'', sequence (connections w self)),
                        (''s'', JNull), (''t'', JNull)])]
   \<and> ack (connections (beat self w) self) = False
   \<and> (fits_float (of_int ms / 1000) \<longrightarrow>
        heartbeat_cycle self (JInt ms) w
          = (None, emit (Slept (of_int ms / 1000)) (beat self w))
        \<and> heartbeat (Suc n) self (JInt ms) w
          = heartbeat n self (JInt ms) (emit (Slept (of_int ms / 1000)) (beat self w))
        \<and> fst (heartbeat n self (JInt ms) w) = None
        \<and> length (filter is_sent (effects (snd (heartbeat n self (JInt ms) w))))
          = length (filter is_sent (effects w)) + n)"
  using beat_effects[of self w] beat_ack[of self w] heartbeat_cycle_int[of ms self w]
    heartbeat_sent_count[of ms n self w] heartbeat_completes[of ms n self w]
  by simp

theorem heartbeat_cycle_sends_once_then_sleeps_witness:
  "fits_float (of_int 41250 / 1000)
   \<and> heartbeat_cycle 0 (JInt 41250) (module_loaded example_functions)
       = (None, emit (Slept (165 / 4)) (beat 0 (module_loaded example_functions)))
   \<and> effects (snd (heartbeat_cycle 0 (JInt 41250) (module_loaded example_functions)))
       = [Sent (envelope 1 JNull JNull JNull), Slept (165 / 4)]
   \<and> ack (connections (snd (heartbeat_cycle 0 (JInt 41250) (module_loaded example_functions))) 0)
       = False
   \<and> fst (heartbeat 2 0 (JInt 41250) (module_loaded example_functions)) = None
   \<and> length (filter is_sent
        (effects (snd (heartbeat 2 0 (JInt 41250) (module_loaded example_functions))))) = 2"
  using heartbeat_cycle_sends_once_then_sleeps[of 0 "module_loaded example_functions" 41250 2]
  by (simp add: run_defs)

section \<open>Chat matching before READY\<close>

text \<open>
  C10. When the connection's \<open>user\<close> is still \<^verbatim>\<open>None\<close> and at least one matcher is
  registered, \<^verbatim>\<open>handle_message_create\<close> raises on every message and calls no matcher and
  no handler. Once the buffering block is through, the exception is the one the
  self-message check raises on the first entry; for a message that has an author with an
  id it is the \<^verbatim>\<open>TypeError\<close> of subscripting \<^verbatim>\<open>None\<close>. (A message the buffering block
  cannot file, one without a \<^verbatim>\<open>channel_id\<close> say, raises there, before the check.)
\<close>

theorem matching_without_user_fails:
  assumes "user (connections w (bot_connection (chat_handlers w self))) = JNull"
    and "fst (match_registry w) \<noteq> []"
  shows "(\<exists>e. fst (handle_message_create self message w) = Some e)
       \<and> effects (snd (handle_message_create self message w)) = effects w
       \<and> (fst (buffer_message self message w) = None \<longrightarrow>
            (\<exists>e. self_check self message (hd (fst (match_registry w))) w = Inl e
                 \<and> fst (handle_message_create self message w) = Some e))
       \<and> ((bufferSize (chat_handlers w self) \<le> 0
             \<or> (subscript message ''channel_id'' = Inr c \<and> hashable c
                 \<and> channelBuffer w (canon c) \<noteq> Some []))
            \<and> subscript message ''author'' = Inr a \<and> subscript a ''id'' = Inr aid \<longrightarrow>
            fst (handle_message_create self message w)
              = Some (TypeError ''NoneType object is not subscriptable''))"
proof -
  obtain m ms where reg: "fst (match_registry w) = m # ms"
    using assms(2) by (cases "fst (match_registry w)") auto
  obtain cb where fr: "snd (buffer_message self message w) = w\<lparr>channelBuffer := cb\<rparr>"
    using buffer_message_frame by blast
  obtain e where e: "self_check self message m w = Inl e"
    using self_check_no_user[OF assms(1)] by blast
  show ?thesis
  proof (cases "fst (buffer_message self message w)")
    case (Some b)
    then have "buffer_message self message w = (Some b, w\<lparr>channelBuffer := cb\<rparr>)"
      using fr by (metis prod.collapse)
    then show ?thesis
      using Some buffer_message_completes[of w self message c]
      by (auto simp: handle_message_create_def)
  next
    case None
    then have bm: "buffer_message self message w = (None, w\<lparr>channelBuffer := cb\<rparr>)"
      using fr by (metis prod.collapse)
    have r: "handle_message_create self message w = (Some e, w\<lparr>channelBuffer := cb\<rparr>)"
      by (simp add: handle_message_create_def bm reg match_step_def e)
    have wf: "subscript message ''author'' = Inr a \<and> subscript a ''id'' = Inr aid \<Longrightarrow>
            e = TypeError ''NoneType object is not subscriptable''"
      using self_check_no_user_wf[OF assms(1), of message a aid m] e by simp
    show ?thesis using r e wf by (auto simp: reg)
  qed
qed

theorem matching_without_user_fails_witness:
  "user (connections (snd (register_match 0 3 13 True one_bot))
      (bot_connection (chat_handlers
         (snd (register_match 0 3 13 True one_bot)) 0))) = JNull
   \<and> fst (match_registry (snd (register_match 0 3 13 True one_bot)))
       = [\<lparr>matcher = 3, no_self_respond = True\<rparr>]
   \<and> fst (handle_message_create 0 (chat_message ''C1'' ''U1'' ''ping'')
            (snd (register_match 0 3 13 True one_bot)))
       = Some (TypeError ''NoneType object is not subscriptable'')
   \<and> effects (snd (handle_message_create 0 (chat_message ''C1'' ''U1'' ''ping'')
            (snd (register_match 0 3 13 True one_bot)))) = []"
  using matching_without_user_fails[of "snd (register_match 0 3 13 True one_bot)"
      0 "chat_message ''C1'' ''U1'' ''ping''" "JStr ''C1''"
      "JObj [(''id'', JStr ''U1'')]" "JStr ''U1''"]
  by (simp add: run_defs)

section \<open>Order of evaluation in the match registry\<close>

text \<open>
  C4. With the matchers \<open>[A, B, C]\<close> registered, none of them suppressed by the self-reply
  rule, the test of line 151 truthy for \<open>A\<close> and for \<open>C\<close> and not for \<open>B\<close>, and the two
  handlers returning, \<^verbatim>\<open>handle_message_create\<close> does exactly this, in this order: calls
  \<open>A\<close>'s predicate, runs \<open>A\<close>'s handler, calls \<open>B\<close>'s predicate, calls \<open>C\<close>'s predicate, runs
  \<open>C\<close>'s handler. \<open>B\<close>'s handler is not run, and \<open>A\<close>'s handler is through before \<open>C\<close>'s
  predicate is called. The test is \<open>matcher_truth\<close>: the truth value of what a plain
  \<^verbatim>\<open>def\<close> returns (so \<open>B\<close> is a plain \<^verbatim>\<open>def\<close>; an \<^verbatim>\<open>async def\<close> always passes it). The
  message is one the handler can file (buffering switched off, or a hashable
  \<^verbatim>\<open>channel_id\<close>) and that has an author with an id, and the connection has a user with
  an id.
\<close>

theorem matchers_run_in_order_exhaustively:
  assumes reg: "match_registry w = ([A, B, C], [fa, fb, fc])"
    and buf: "bufferSize (chat_handlers w self) \<le> 0
           \<or> (subscript message ''channel_id'' = Inr c \<and> hashable c
               \<and> channelBuffer w (canon c) \<noteq> Some [])"
    and author: "subscript message ''author'' = Inr a" "subscript a ''id'' = Inr aid"
    and me: "subscript (user (connections w (bot_connection (chat_handlers w self)))) ''id'' = Inr uid"
    and unsuppressed: "\<not> (py_eq aid uid \<and> no_self_respond A)"
       "\<not> (py_eq aid uid \<and> no_self_respond B)" "\<not> (py_eq aid uid \<and> no_self_respond C)"
    and A: "matcher_truth (callables w (matcher A)) message = Inr True"
    and B: "matcher_truth (callables w (matcher B)) message = Inr False"
    and C: "matcher_truth (callables w (matcher C)) message = Inr True"
    and handlers: "c_call (callables w fa) message = Inr va" "c_call (callables w fc) message = Inr vc"
  shows "fst (handle_message_create self message w) = None
       \<and> effects (snd (handle_message_create self message w))
          = effects w @ [Called_matcher (matcher A) message, Called_handler fa message,
                         Called_matcher (matcher B) message,
                         Called_matcher (matcher C) message, Called_handler fc message]"
proof -
  obtain cb where fr: "snd (buffer_message self message w) = w\<lparr>channelBuffer := cb\<rparr>"
    using buffer_message_frame by blast
  define w0 where "w0 = w\<lparr>channelBuffer := cb\<rparr>"
  have bm: "buffer_message self message w = (None, w0)"
    using buffer_message_completes[OF buf] fr by (metis prod.collapse w0_def)
  have sc: "self_check self message A w0 = Inr False" "self_check self message B w0 = Inr False"
           "self_check self message C w0 = Inr False"
    using author me unsuppressed by (simp_all add: w0_def self_check_def)
  define w1 where "w1 = emit (Called_handler fa message) (emit (Called_matcher (matcher A) message) w0)"
  define w2 where "w2 = emit (Called_matcher (matcher B) message) w1"
  define w3 where "w3 = emit (Called_handler fc message) (emit (Called_matcher (matcher C) message) w2)"
  have s1: "match_step self message 0 A w0 = (None, w1)"
    using match_step_match[OF sc(1), of 0 va] A handlers reg by (simp add: w0_def w1_def)
  have s2: "match_step self message (Suc 0) B w1 = (None, w2)"
    using match_step_no_match[of self message B w1 "Suc 0"] sc(2) B
    by (simp add: w0_def w1_def w2_def)
  have s3: "match_step self message (Suc (Suc 0)) C w2 = (None, w3)"
    using match_step_match[of self message C w2 "Suc (Suc 0)" vc] sc(3) C handlers reg
    by (simp add: w0_def w1_def w2_def w3_def)
  have "handle_message_create self message w = (None, w3)"
    using bm s1 s2 s3 reg by (simp add: handle_message_create_def w0_def)
  then show ?thesis by (simp add: w3_def w2_def w1_def w0_def)
qed

theorem matchers_run_in_order_exhaustively_witness:
  "match_registry three_matchers
     = ([\<lparr>matcher = 1, no_self_respond = True\<rparr>, \<lparr>matcher = 2, no_self_respond = True\<rparr>,
         \<lparr>matcher = 3, no_self_respond = True\<rparr>], [11, 12, 13])
   \<and> \<not> c_async (callables three_matchers 1) \<and> \<not> c_async (callables three_matchers 2)
   \<and> \<not> c_async (callables three_matchers 3)
   \<and> c_call (callables three_matchers 1) (chat_message ''C1'' ''U1'' ''ping'') = Inr (JBool True)
   \<and> c_call (callables three_matchers 2) (chat_message ''C1'' ''U1'' ''ping'') = Inr (JBool False)
   \<and> c_call (callables three_matchers 3) (chat_message ''C1'' ''U1'' ''ping'') = Inr (JBool True)
   \<and> fst (handle_message_create 0 (chat_message ''C1'' ''U1'' ''ping'') three_matchers) = None
   \<and> effects (snd (handle_message_create 0 (chat_message ''C1'' ''U1'' ''ping'') three_matchers))
       = effects three_matchers
           @ [Called_matcher 1 (chat_message ''C1'' ''U1'' ''ping''),
              Called_handler 11 (chat_message ''C1'' ''U1'' ''ping''),
              Called_matcher 2 (chat_message ''C1'' ''U1'' ''ping''),
              Called_matcher 3 (chat_message ''C1'' ''U1'' ''ping''),
              Called_handler 13 (chat_message ''C1'' ''U1'' ''ping'')]"
  using matchers_run_in_order_exhaustively[where w = three_matchers
      and A = "\<lparr>matcher = 1, no_self_respond = True\<rparr>"
      and B = "\<lparr>matcher = 2, no_self_respond = True\<rparr>"
      and C = "\<lparr>matcher = 3, no_self_respond = True\<rparr>"
      and fa = 11 and fb = 12 and fc = 13 and self = 0
      and message = "chat_message ''C1'' ''U1'' ''ping''" and c = "JStr ''C1''"
      and a = "JObj [(''id'', JStr ''U1'')]" and aid = "JStr ''U1''" and uid = "JStr ''U0''"
      and va = "JBool True" and vc = "JBool True"]
  by (simp add: run_defs)

section \<open>Repeated READY\<close>

text \<open>
  C3, as claimed: of two \<^verbatim>\<open>READY\<close> events only the first assigns \<^verbatim>\<open>session_id\<close> and
  \<^verbatim>\<open>user\<close>, the second warns and leaves them as they are. The code warns and then
  assigns all the same. After \<^verbatim>\<open>READY\<close> with user \<^verbatim>\<open>U0\<close> and session \<^verbatim>\<open>S1\<close>, a second
  \<^verbatim>\<open>READY\<close> with user \<^verbatim>\<open>U9\<close> and session \<^verbatim>\<open>S2\<close> prints the warning and leaves \<^verbatim>\<open>U9\<close> and
  \<^verbatim>\<open>S2\<close> stored.
\<close>

theorem second_ready_overwrites:
  "session_id (connections after_ready 0) = JStr ''S1''
   \<and> user (connections after_ready 0) = JObj [(''id'', JStr ''U0''), (''username'', JStr ''bot'')]
   \<and> handle_dispatch 0 (envelope 0 (ready_event ''U9'' ''other'' ''S2'') (JInt 2) (JStr ''READY''))
        after_ready
      = (None, after_ready
          \<lparr>connections := (connections after_ready)
             (0 := (connections after_ready 0)
                \<lparr>user := JObj [(''id'', JStr ''U9''), (''username'', JStr ''other'')],
                 session_id := JStr ''S2''\<rparr>),
           effects := effects after_ready
             @ [Printed Warn_repeat_ready, Printed (My_username (JStr ''other'')),
                Printed (In_guilds 0)]\<rparr>)"
  by (simp add: run_defs)

text \<open>
  C3, as the code has it: every \<^verbatim>\<open>READY\<close> dispatch whose payload holds \<^verbatim>\<open>user\<close> and
  \<^verbatim>\<open>session_id\<close> stores both, whatever was stored before; when the stored \<^verbatim>\<open>session_id\<close>
  is truthy the duplicate warning is printed first. So the second of two \<^verbatim>\<open>READY\<close> events
  warns and overwrites.
\<close>

theorem ready_assigns_user_and_session:
  assumes "subscript message ''t'' = Inr t" and "py_eq t (JStr ''READY'')"
    and "subscript message ''d'' = Inr event"
    and "subscript event ''user'' = Inr u" and "subscript event ''session_id'' = Inr sid"
  shows "user (connections (snd (handle_dispatch self message w)) self) = u
       \<and> session_id (connections (snd (handle_dispatch self message w)) self) = sid
       \<and> (\<exists>more. effects (snd (handle_dispatch self message w))
            = effects w @ (if truthy (session_id (connections w self))
                           then [Printed Warn_repeat_ready] else []) @ more)"
proof -
  obtain r w1 where rd: "ready self event w = (r, w1)" by (cases "ready self event w")
  have c1: "connections w1 = (connections w)(self := (connections w self)\<lparr>user := u, session_id := sid\<rparr>)"
    using ready_session(1)[OF assms(4,5), of self w] rd by simp
  obtain more where e1: "effects w1 = effects w @ (if truthy (session_id (connections w self))
                           then [Printed Warn_repeat_ready] else []) @ more"
    using ready_session(2)[OF assms(4,5), of self w] rd by auto
  have ks: "kept_session w1 (snd (handle_dispatch self message w))"
    using assms(1,2,3) rd
    by (auto simp: handle_dispatch_def event_switch_def call_registered_kept
             split: sum.splits option.splits)
  obtain more' where e2: "effects (snd (handle_dispatch self message w)) = effects w1 @ more'"
    using kept_session_effects[OF ks] by blast
  have c2: "connections (snd (handle_dispatch self message w)) = connections w1"
    using kept_session_connections[OF ks] .
  show ?thesis using c1 c2 e1 e2 by simp
qed

theorem ready_assigns_user_and_session_witness:
  "subscript (envelope 0 (ready_event ''U9'' ''other'' ''S2'') (JInt 2) (JStr ''READY'')) ''t''
     = Inr (JStr ''READY'')
   \<and> py_eq (JStr ''READY'') (JStr ''READY'')
   \<and> truthy (session_id (connections after_ready 0))
   \<and> user (connections (snd (handle_dispatch 0
        (envelope 0 (ready_event ''U9'' ''other'' ''S2'') (JInt 2) (JStr ''READY'')) after_ready)) 0)
      = JObj [(''id'', JStr ''U9''), (''username'', JStr ''other'')]
   \<and> session_id (connections (snd (handle_dispatch 0
        (envelope 0 (ready_event ''U9'' ''other'' ''S2'') (JInt 2) (JStr ''READY'')) after_ready)) 0)
      = JStr ''S2''"
  using ready_assigns_user_and_session[of
      "envelope 0 (ready_event ''U9'' ''other'' ''S2'') (JInt 2) (JStr ''READY'')"
      "JStr ''READY''" "ready_event ''U9'' ''other'' ''S2''"
      "JObj [(''id'', JStr ''U9''), (''username'', JStr ''other'')]" "JStr ''S2''" 0 after_ready]
  by (simp add: run_defs)

section \<open>Identify and Hello\<close>

text \<open>
  C2, as claimed: Identify is sent right after Hello is received, triggered by it, and
  never before. The code sends it from \<^verbatim>\<open>start\<close>, as soon as the socket is open. When the
  socket yields nothing at all, Identify has been sent; when it yields a Hello, Identify
  was sent before, and handling the Hello prints a line and schedules the heartbeat task,
  nothing else.
\<close>

theorem identify_precedes_hello:
  "effects (snd (start 0 (JObj [(''url'', JStr ''wss://gateway.discord.gg'')]) (JInt 0) []
      (module_loaded example_functions)))
     = [Sent (envelope 2 (identify_payload ''token'' (JInt 0)) JNull JNull)]
   \<and> effects (snd (start 0 (JObj [(''url'', JStr ''wss://gateway.discord.gg'')]) (JInt 0)
      [hello_envelope] (module_loaded example_functions)))
     = [Sent (envelope 2 (identify_payload ''token'' (JInt 0)) JNull JNull),
        Printed (Hello_received (JInt 41250)), Scheduled_heartbeat 0 (JInt 41250)]
   \<and> effects (snd (handle_message 0 hello_envelope (module_loaded example_functions)))
     = [Printed (Hello_received (JInt 41250)), Scheduled_heartbeat 0 (JInt 41250)]"
  by (simp add: run_defs)

text \<open>
  C2, as the code has it: \<^verbatim>\<open>start\<close> sends the Identify envelope first, before it reads
  anything, and whatever the socket yields afterwards the read loop writes nothing more
  to the socket, so Identify is sent exactly once. Handling an envelope with opcode 10
  reads \<^verbatim>\<open>heartbeat_interval\<close> from the payload, prints it, schedules the heartbeat task
  with that interval and then runs the handler registered for opcode 10, if any. (The
  heartbeats themselves are written by the scheduled task.)
\<close>

theorem identify_sent_once_at_start:
  assumes "subscript response ''url'' = Inr url"
  shows "(\<exists>more. effects (snd (start self response now incoming w))
            = effects w @ [Sent (JObj [(''op'', IDENTIFY),
                               (''d'', identify_payload (botToken (connections w self)) now),
                               (''s'', JNull), (''t'', JNull)])] @ more
          \<and> filter is_sent more = [])
       \<and> (subscript message ''op'' = Inr opc \<and> py_eq opc HELLO
            \<and> subscript message ''d'' = Inr d \<and> subscript d ''heartbeat_interval'' = Inr iv \<longrightarrow>
          effects (snd (handle_message self message w))
            = effects w @ [Printed (Hello_received iv), Scheduled_heartbeat self iv]
                @ (case message_registry w HELLO of None \<Rightarrow> []
                   | Some f \<Rightarrow> [Called_handler f message]))"
proof -
  have "kept (identify self now w) (snd (read_loop self incoming (identify self now w)))"
    by (rule read_loop_kept)
  then obtain more where
    "effects (snd (read_loop self incoming (identify self now w)))
       = effects (identify self now w) @ more" "filter is_sent more = []"
    by (auto simp: kept_def unsent_def)
  then have 1: "\<exists>more. effects (snd (start self response now incoming w))
            = effects w @ [Sent (JObj [(''op'', IDENTIFY),
                               (''d'', identify_payload (botToken (connections w self)) now),
                               (''s'', JNull), (''t'', JNull)])] @ more
          \<and> filter is_sent more = []"
    using assms by (simp add: start_def identify_effects)
  show ?thesis using 1 hello_handled[of message opc d iv self w] by blast
qed

theorem identify_sent_once_at_start_witness:
  "subscript (JObj [(''url'', JStr ''wss://gateway.discord.gg'')]) ''url''
     = Inr (JStr ''wss://gateway.discord.gg'')
   \<and> subscript hello_envelope ''op'' = Inr (JInt 10) \<and> py_eq (JInt 10) HELLO
   \<and> subscript hello_envelope ''d'' = Inr (JObj [(''heartbeat_interval'', JInt 41250)])
   \<and> (\<exists>more. effects (snd (start 0 (JObj [(''url'', JStr ''wss://gateway.discord.gg'')]) (JInt 0)
              [hello_envelope] (module_loaded example_functions)))
            = [Sent (envelope 2 (identify_payload ''token'' (JInt 0)) JNull JNull)] @ more
          \<and> filter is_sent more = [])
   \<and> effects (snd (handle_message 0 hello_envelope (module_loaded example_functions)))
     = [Printed (Hello_received (JInt 41250)), Scheduled_heartbeat 0 (JInt 41250)]"
  using identify_sent_once_at_start[of "JObj [(''url'', JStr ''wss://gateway.discord.gg'')]"
      "JStr ''wss://gateway.discord.gg''" 0 "JInt 0" "[hello_envelope]"
      "module_loaded example_functions" hello_envelope "JInt 10"
      "JObj [(''heartbeat_interval'', JInt 41250)]" "JInt 41250"]
  by (simp add: run_defs)

section \<open>Registering twice\<close>

text \<open>
  C8, as claimed: in every registry, the match registry included, registering under a
  key or matcher that is already bound warns, does not raise and replaces the older
  handler. The match registry is two lists that only grow, and what it looks for is the
  whole entry, matcher and flag. With matcher 3 bound to handler 13 (flag \<^verbatim>\<open>True\<close>),
  registering handler 11 under matcher 3 with the flag \<^verbatim>\<open>False\<close> returns without a
  warning and leaves both entries; a message by another user then runs handler 13 and
  handler 11.
\<close>

theorem register_match_appends_beside_older:
  "register_match 0 3 11 False (snd (register_match 0 3 13 True after_ready))
     = (None, after_ready
          \<lparr>match_registry := ([\<lparr>matcher = 3, no_self_respond = True\<rparr>,
                               \<lparr>matcher = 3, no_self_respond = False\<rparr>], [13, 11])\<rparr>)
   \<and> effects (snd (handle_message_create 0 (chat_message ''C1'' ''U1'' ''ping'')
        (snd (register_match 0 3 11 False (snd (register_match 0 3 13 True after_ready))))))
     = effects after_ready
         @ [Called_matcher 3 (chat_message ''C1'' ''U1'' ''ping''),
            Called_handler 13 (chat_message ''C1'' ''U1'' ''ping''),
            Called_matcher 3 (chat_message ''C1'' ''U1'' ''ping''),
            Called_handler 11 (chat_message ''C1'' ''U1'' ''ping'')]"
  by (simp add: run_defs numeral_3_eq_3)

text \<open>
  C8, as the code has it. In the event registry and in the opcode registry, registering
  under a key that is already bound prints the warning, does not raise and binds the new
  handler; a later dispatch of that key, on any connection, runs the new handler once the
  built-in handling is through. The match registry never replaces: registering an entry
  (matcher and flag) that is not in it, a matcher that is there with the other flag
  included, prints nothing, does not raise and appends the entry and its handler after
  all the earlier ones. (What happens for an entry that is already there is
  \<open>register_match_equal_entry_raises\<close> below.)
\<close>

theorem reregistration_replaces_in_keyed_registries:
  "(hash_key key = Inr k \<and> dispatch_registry w k = Some old \<longrightarrow>
      fst (register_dispatch self key new w) = None
      \<and> effects (snd (register_dispatch self key new w))
           = effects w @ [Printed (Warn_dispatch_registered key (handler_name w new))]
      \<and> dispatch_registry (snd (register_dispatch self key new w)) k = Some new
      \<and> (subscript message ''t'' = Inr key \<and> subscript message ''d'' = Inr event \<longrightarrow>
           handle_dispatch other message (snd (register_dispatch self key new w))
             = (case event_switch other key event (snd (register_dispatch self key new w)) of
                  (Some e, w1) \<Rightarrow> (Some e, w1)
                | (None, w1) \<Rightarrow> call_registered new event w1)))
   \<and> (hash_key key = Inr k \<and> message_registry w k = Some oldf \<longrightarrow>
      fst (register_message self key newf w) = None
      \<and> effects (snd (register_message self key newf w))
           = effects w @ [Printed (Warn_opcode_registered key (c_name (callables w newf)))]
      \<and> message_registry (snd (register_message self key newf w)) k = Some newf
      \<and> (subscript message ''op'' = Inr key \<longrightarrow>
           handle_message other message (snd (register_message self key newf w))
             = (case opcode_switch other key message (snd (register_message self key newf w)) of
                  (Some e, w1) \<Rightarrow> (Some e, w1)
                | (None, w1) \<Rightarrow> await_coroutine newf message w1)))
   \<and> (\<lparr>matcher = m, no_self_respond = nsr\<rparr> \<notin> set (fst (match_registry w)) \<longrightarrow>
        register_match self m f nsr w
          = (None, w\<lparr>match_registry :=
                       (fst (match_registry w) @ [\<lparr>matcher = m, no_self_respond = nsr\<rparr>],
                        snd (match_registry w) @ [f])\<rparr>))"
proof (intro conjI impI)
  assume h: "hash_key key = Inr k \<and> dispatch_registry w k = Some old"
  then show "fst (register_dispatch self key new w) = None"
    and "effects (snd (register_dispatch self key new w))
           = effects w @ [Printed (Warn_dispatch_registered key (handler_name w new))]"
    and b: "dispatch_registry (snd (register_dispatch self key new w)) k = Some new"
    by (simp_all add: register_dispatch_def emit_def)
  assume "subscript message ''t'' = Inr key \<and> subscript message ''d'' = Inr event"
  then show "handle_dispatch other message (snd (register_dispatch self key new w))
             = (case event_switch other key event (snd (register_dispatch self key new w)) of
                  (Some e, w1) \<Rightarrow> (Some e, w1)
                | (None, w1) \<Rightarrow> call_registered new event w1)"
    using handle_dispatch_calls_bound[of message key event k _ new other] h b by simp
next
  assume h: "hash_key key = Inr k \<and> message_registry w k = Some oldf"
  then show "fst (register_message self key newf w) = None"
    and "effects (snd (register_message self key newf w))
           = effects w @ [Printed (Warn_opcode_registered key (c_name (callables w newf)))]"
    and b: "message_registry (snd (register_message self key newf w)) k = Some newf"
    by (simp_all add: register_message_def emit_def)
  assume "subscript message ''op'' = Inr key"
  then show "handle_message other message (snd (register_message self key newf w))
             = (case opcode_switch other key message (snd (register_message self key newf w)) of
                  (Some e, w1) \<Rightarrow> (Some e, w1)
                | (None, w1) \<Rightarrow> await_coroutine newf message w1)"
    using handle_message_calls_bound[of message key k _ newf other] h b by simp
next
  assume "\<lparr>matcher = m, no_self_respond = nsr\<rparr> \<notin> set (fst (match_registry w))"
  then show "register_match self m f nsr w
          = (None, w\<lparr>match_registry :=
                       (fst (match_registry w) @ [\<lparr>matcher = m, no_self_respond = nsr\<rparr>],
                        snd (match_registry w) @ [f])\<rparr>)"
    by (simp add: register_match_def Let_def)
qed

theorem reregistration_replaces_in_keyed_registries_witness:
  "hash_key (JStr ''TYPING_START'') = Inr (JStr ''TYPING_START'')
   \<and> dispatch_registry (snd (register_dispatch 0 (JStr ''TYPING_START'') (Fn 11)
        (module_loaded example_functions))) (JStr ''TYPING_START'') = Some (Fn 11)
   \<and> fst (register_dispatch 0 (JStr ''TYPING_START'') (Fn 13)
        (snd (register_dispatch 0 (JStr ''TYPING_START'') (Fn 11)
           (module_loaded example_functions)))) = None
   \<and> effects (snd (handle_dispatch 0 (envelope 0 (JObj []) (JInt 1) (JStr ''TYPING_START''))
        (snd (register_dispatch 0 (JStr ''TYPING_START'') (Fn 13)
           (snd (register_dispatch 0 (JStr ''TYPING_START'') (Fn 11)
              (module_loaded example_functions)))))))
      = [Printed (Warn_dispatch_registered (JStr ''TYPING_START'') ''f''),
         Called_handler 13 (JObj [])]
   \<and> hash_key HEARTBEAT = Inr HEARTBEAT
   \<and> message_registry (snd (register_message 0 HEARTBEAT 11 (module_loaded example_functions)))
        HEARTBEAT = Some 11
   \<and> effects (snd (handle_message 0 (envelope 1 JNull JNull JNull)
        (snd (register_message 0 HEARTBEAT 13
           (snd (register_message 0 HEARTBEAT 11 (module_loaded example_functions)))))))
      = [Printed (Warn_opcode_registered HEARTBEAT ''f''),
         Called_handler 13 (envelope 1 JNull JNull JNull)]
   \<and> \<lparr>matcher = 3, no_self_respond = True\<rparr>
        \<in> set (fst (match_registry (snd (register_match 0 3 13 True one_bot))))
   \<and> \<lparr>matcher = 3, no_self_respond = False\<rparr>
        \<notin> set (fst (match_registry (snd (register_match 0 3 13 True one_bot))))
   \<and> fst (register_match 0 3 11 False (snd (register_match 0 3 13 True one_bot))) = None
   \<and> effects (snd (register_match 0 3 11 False (snd (register_match 0 3 13 True one_bot))))
      = effects one_bot
   \<and> match_registry (snd (register_match 0 3 11 False (snd (register_match 0 3 13 True one_bot))))
      = ([\<lparr>matcher = 3, no_self_respond = True\<rparr>, \<lparr>matcher = 3, no_self_respond = False\<rparr>],
         [13, 11])"
  using reregistration_replaces_in_keyed_registries[where key = "JStr ''TYPING_START''"
      and k = "JStr ''TYPING_START''"
      and w = "snd (register_dispatch 0 (JStr ''TYPING_START'') (Fn 11) (module_loaded example_functions))"
      and old = "Fn 11" and self = 0 and new = "Fn 13"
      and message = "envelope 0 (JObj []) (JInt 1) (JStr ''TYPING_START'')"
      and event = "JObj []" and other = 0]
    reregistration_replaces_in_keyed_registries[where key = HEARTBEAT and k = HEARTBEAT
      and w = "snd (register_message 0 HEARTBEAT 11 (module_loaded example_functions))"
      and oldf = 11 and self = 0 and newf = 13
      and message = "envelope 1 JNull JNull JNull" and other = 0]
    reregistration_replaces_in_keyed_registries[where w = "snd (register_match 0 3 13 True one_bot)"
      and self = 0 and m = 3 and f = 11 and nsr = False]
  by (simp add: run_defs)

text \<open>
  Registering an entry that is already in the match registry: the warning's f-string
  reads \<^verbatim>\<open>expression\<close>, a name bound nowhere, so the call raises \<^verbatim>\<open>NameError\<close> and the
  registry is left as it was, with the first handler.
\<close>

lemma register_match_equal_entry_raises:
  "register_match 0 3 13 True (snd (register_match 0 3 11 True one_bot))
     = (Some (NameError ''expression''), snd (register_match 0 3 11 True one_bot))
   \<and> match_registry (snd (register_match 0 3 11 True one_bot))
     = ([\<lparr>matcher = 3, no_self_respond = True\<rparr>], [11])"
  by (simp add: run_defs)

end
